theory Spec2Isabelle
  imports Complex_Main "HOL-Library.Char_ord" "HOL-Library.List_Lexorder"
    "HOL-Library.Option_ord"
begin

section \<open>Data model\<close>

text \<open>
  The services under \<^verbatim>\<open>fd-be/src/modules\<close> are NestJS classes over TypeORM
  repositories.  A repository is modelled as the list of rows of its table, an exception as
  a value of type \<open>exn\<close>, and every service method as a function from the state before
  the call to a result (\<open>Inl\<close> the exception thrown, \<open>Inr\<close> the value returned) paired
  with the state after the call, so that what a failing call leaves behind is visible.
\<close>

datatype exn =
    BadRequestException string
  | NotFoundException string
  | Error string

fun message :: "exn \<Rightarrow> string" where
  "message (BadRequestException m) = m"
| "message (NotFoundException m) = m"
| "message (Error m) = m"

fun instanceof_BadRequestException :: "exn \<Rightarrow> bool" where
  "instanceof_BadRequestException (BadRequestException m) = True"
| "instanceof_BadRequestException e = False"

datatype RestaurantStatus = PENDING | APPROVED | REJECTED

text \<open>
  A JavaScript number.  The code only moves coordinates around and computes
  \<open>Math.ceil(totalItems / pageSize)\<close> on row counts, so finite values are kept exact.
\<close>

datatype number = Finite real | PosInfinity | NegInfinity | NaN

text \<open>
  JavaScript truthiness of an optional string property: \<open>undefined\<close> (here \<open>None\<close>)
  and the empty string are falsy.
\<close>

fun truthy :: "string option \<Rightarrow> bool" where
  "truthy None = False"
| "truthy (Some v) = (v \<noteq> [])"

record Role =
  role_id :: string
  role_name :: string

record User =
  user_id :: string
  user_username :: string
  user_email :: string
  user_name :: "string option"
  user_password :: string
  user_role :: "Role option"
  user_authProvider :: "string option"
  user_googleId :: "string option"

record Address =
  address_id :: "string option"
  street :: "string option"
  ward :: "string option"
  district :: "string option"
  city :: "string option"
  address_latitude :: "number option"
  address_longitude :: "number option"

record Restaurant =
  restaurant_id :: "string option"
  restaurant_name :: "string option"
  description :: "string option"
  openTime :: "string option"
  closeTime :: "string option"
  latitude :: "number option"
  longitude :: "number option"
  avatar :: "string option"
  backgroundImage :: "string option"
  certificateImage :: "string option"
  owner :: "User option"
  address :: "Address option"
  status :: RestaurantStatus

datatype log_entry = Log string | Warn string | LogError string

record state =
  usersRepository :: "User list"
  rolesRepository :: "Role list"
  addressRepository :: "Address list"
  restaurantRepository :: "Restaurant list"
  logger :: "log_entry list"

subsection \<open>Repository primitives\<close>

text \<open>
  \<open>Repository.save\<close> of an entity that carries a primary key is an upsert: a row is
  inserted when the table has none with that key; otherwise the row is updated with the
  properties the entity defines.  \<open>save_row\<close> writes the row that results.
  \<open>Repository.delete\<close> removes the rows with the key and reports how many it removed.
\<close>

definition save_row :: "('a \<Rightarrow> 'k) \<Rightarrow> 'a \<Rightarrow> 'a list \<Rightarrow> 'a list" where
  "save_row key x rows =
     (if list_ex (\<lambda>r. key r = key x) rows
      then map (\<lambda>r. if key r = key x then x else r) rows
      else rows @ [x])"

definition delete_rows :: "('a \<Rightarrow> 'k) \<Rightarrow> 'k \<Rightarrow> 'a list \<Rightarrow> nat \<times> 'a list" where
  "delete_rows key k rows =
     (length (filter (\<lambda>r. key r = k) rows), filter (\<lambda>r. key r \<noteq> k) rows)"

subsection \<open>Collaborators\<close>

text \<open>
  Object storage, geocoding, \<open>parseFloat\<close>, \<open>bcrypt.hash\<close>, \<open>uuidv4\<close> and the
  primary keys that the store generates for inserted rows are outside the services; they
  are taken as parameters.  A storage or geocoding call either rejects (\<open>Inl\<close>) or
  resolves (\<open>Inr\<close>).  An uploaded file is identified by its original name.
\<close>

text \<open>
  Modelled from the spec: the library behind \<open>bcrypt.hash(password, rounds)\<close> is not among
  the sources.  The specification has the password hashed and never stored in clear, so a
  hasher is any function of the password and the number of rounds that does not return the
  password it is given.
\<close>

typedef hasher = "{h :: string \<Rightarrow> nat \<Rightarrow> string. \<forall>p rounds. h p rounds \<noteq> p}"
  by (rule exI [of _ "\<lambda>p rounds. CHR ''$'' # p"]) simp

setup_lifting type_definition_hasher

lift_definition hash :: "hasher \<Rightarrow> string \<Rightarrow> nat \<Rightarrow> string" is "\<lambda>h. h" .

type_synonym MulterFile = string

record AddressData =
  ad_street :: string
  ad_ward :: string
  ad_district :: string
  ad_city :: string

record Coordinates =
  lat :: number
  lng :: number

record env =
  uploadPublicFile :: "MulterFile \<Rightarrow> string \<Rightarrow> exn + string"
  deleteFile :: "string \<Rightarrow> exn + unit"
  geocode :: "AddressData \<Rightarrow> exn + Coordinates option"
  parseFloat :: "string \<Rightarrow> number"
  bcrypt :: hasher
  uuidv4 :: string
  generated_address_id :: string
  generated_restaurant_id :: string

definition bcrypt_hash :: "env \<Rightarrow> string \<Rightarrow> nat \<Rightarrow> string" where
  "bcrypt_hash e password rounds = hash (bcrypt e) password rounds"

definition logger_log :: "string \<Rightarrow> state \<Rightarrow> state" where
  "logger_log m s = s\<lparr>logger := logger s @ [Log m]\<rparr>"

definition logger_warn :: "string \<Rightarrow> state \<Rightarrow> state" where
  "logger_warn m s = s\<lparr>logger := logger s @ [Warn m]\<rparr>"

definition logger_error :: "string \<Rightarrow> state \<Rightarrow> state" where
  "logger_error m s = s\<lparr>logger := logger s @ [LogError m]\<rparr>"

text \<open>
  \<open>save\<close> of an entity without a primary key inserts it under the key the store
  generates, and hands the entity back with that key.
\<close>

definition restaurantRepository_save ::
  "env \<Rightarrow> Restaurant \<Rightarrow> state \<Rightarrow> Restaurant \<times> state" where
  "restaurantRepository_save e r s =
     (case restaurant_id r of
        None \<Rightarrow>
          (let r' = r\<lparr>restaurant_id := Some (generated_restaurant_id e)\<rparr>
           in (r', s\<lparr>restaurantRepository := restaurantRepository s @ [r']\<rparr>))
      | Some k \<Rightarrow>
          (r, s\<lparr>restaurantRepository := save_row restaurant_id r (restaurantRepository s)\<rparr>))"

definition addressRepository_save :: "env \<Rightarrow> Address \<Rightarrow> state \<Rightarrow> Address \<times> state" where
  "addressRepository_save e a s =
     (case address_id a of
        None \<Rightarrow>
          (let a' = a\<lparr>address_id := Some (generated_address_id e)\<rparr>
           in (a', s\<lparr>addressRepository := addressRepository s @ [a']\<rparr>))
      | Some k \<Rightarrow>
          (a, s\<lparr>addressRepository := save_row address_id a (addressRepository s)\<rparr>))"

definition addressRepository_create :: "AddressData \<Rightarrow> Address" where
  "addressRepository_create d =
     \<lparr>address_id = None, street = Some (ad_street d), ward = Some (ad_ward d),
      district = Some (ad_district d), city = Some (ad_city d),
      address_latitude = None, address_longitude = None\<rparr>"

definition addressRepository_create_street :: "string \<Rightarrow> Address" where
  "addressRepository_create_street st =
     \<lparr>address_id = None, street = Some st, ward = None, district = None, city = None,
      address_latitude = None, address_longitude = None\<rparr>"

section \<open>Restaurant workflow (restaurant.service.ts)\<close>

text \<open>
  Modelled from the spec: the class \<open>CreateRestaurantDto\<close> (dto/create-restaurant.dto)
  is not among the sources.  Its fields here are the ones the service reads (\<open>ownerId\<close>,
  \<open>address\<close>, \<open>latitude\<close>, \<open>longitude\<close>, the last two strings given to
  \<open>parseFloat\<close>) and the restaurant attributes of the data model (name, description,
  open and close time), which the service copies with an object spread.
\<close>

record CreateRestaurantDto =
  dto_name :: "string option"
  dto_description :: "string option"
  dto_openTime :: "string option"
  dto_closeTime :: "string option"
  dto_ownerId :: "string option"
  dto_address :: "string option"
  dto_latitude :: "string option"
  dto_longitude :: "string option"

text \<open>
  Modelled from the spec: the class \<open>UpdateRestaurantDto\<close> (dto/update-restaurant.dto)
  is not among the sources.  It carries \<open>ownerId\<close>, which the service reads and deletes,
  and the restaurant attributes of the data model, merged with \<open>Object.assign\<close>.
\<close>

record UpdateRestaurantDto =
  upd_name :: "string option"
  upd_description :: "string option"
  upd_openTime :: "string option"
  upd_closeTime :: "string option"
  upd_ownerId :: "string option"

text \<open>The conditional \<open>x ? parseFloat(x) : undefined\<close>.\<close>

definition parseFloat_if_truthy :: "env \<Rightarrow> string option \<Rightarrow> number option" where
  "parseFloat_if_truthy e x =
     (case x of None \<Rightarrow> None | Some v \<Rightarrow> if v = [] then None else Some (parseFloat e v))"

definition findOne :: "string \<Rightarrow> state \<Rightarrow> (exn + Restaurant) \<times> state" where
  "findOne rid s =
     (case find (\<lambda>r. restaurant_id r = Some rid) (restaurantRepository s) of
        None \<Rightarrow> (Inl (Error (''Restaurant with ID '' @ rid @ '' not found'')), s)
      | Some restaurant \<Rightarrow> (Inr restaurant, s))"

definition userRepository_findOne :: "string \<Rightarrow> state \<Rightarrow> User option" where
  "userRepository_findOne uid s = find (\<lambda>u. user_id u = uid) (usersRepository s)"

text \<open>
  The geocoding step shared by \<open>requestRestaurantWithFiles\<close> (lines 72-84) and
  \<open>updateWithAddressAndFiles\<close> (lines 265-279): coordinates are stored when the
  service resolves with a result; no result and a rejection are logged and swallowed.
\<close>

definition try_geocode :: "env \<Rightarrow> AddressData \<Rightarrow> Address \<Rightarrow> state \<Rightarrow> Address \<times> state" where
  "try_geocode e addressData addr s =
     (case geocode e addressData of
        Inr (Some coordinates) \<Rightarrow>
          (addr\<lparr>address_latitude := Some (lat coordinates),
                address_longitude := Some (lng coordinates)\<rparr>,
           logger_log (''Geocoding successful for address: '' @ ad_street addressData
                       @ '', '' @ ad_city addressData) s)
      | Inr None \<Rightarrow>
          (addr,
           logger_warn (''Geocoding returned no results for address: '' @ ad_street addressData
                        @ '', '' @ ad_city addressData) s)
      | Inl geoError \<Rightarrow>
          (addr, logger_error (''Geocoding failed: '' @ message geoError) s))"

text \<open>
  Lines 66-85 of \<open>requestRestaurantWithFiles\<close>: coordinates sent by the frontend are
  used directly, when both are truthy; otherwise geocoding is tried.
\<close>

definition set_coordinates ::
  "env \<Rightarrow> CreateRestaurantDto \<Rightarrow> AddressData \<Rightarrow> Address \<Rightarrow> state \<Rightarrow> Address \<times> state" where
  "set_coordinates e createRestaurantDto addressData addr s =
     (if truthy (dto_latitude createRestaurantDto) \<and> truthy (dto_longitude createRestaurantDto)
      then (addr\<lparr>address_latitude :=
                    Some (parseFloat e (the (dto_latitude createRestaurantDto))),
                  address_longitude :=
                    Some (parseFloat e (the (dto_longitude createRestaurantDto)))\<rparr>,
            s)
      else try_geocode e addressData addr s)"

text \<open>
  The guarded upload
  \<open>if (file) { url = await this.gcsService.uploadPublicFile(file, folder); }\<close>:
  without a file the variable keeps its current value.
\<close>

definition upload_if_provided ::
  "env \<Rightarrow> MulterFile option \<Rightarrow> string \<Rightarrow> string option \<Rightarrow> exn + string option" where
  "upload_if_provided e file folder current =
     (case file of
        None \<Rightarrow> Inr current
      | Some f \<Rightarrow> (case uploadPublicFile e f folder of
                    Inl err \<Rightarrow> Inl err
                  | Inr url \<Rightarrow> Inr (Some url)))"

text \<open>
  The three uploads of one \<open>try\<close> block, in source order: avatar, background, certificate.
  The first rejection leaves the block.
\<close>

definition upload_files ::
  "env \<Rightarrow> MulterFile option \<Rightarrow> MulterFile option \<Rightarrow> MulterFile option \<Rightarrow>
   string option \<Rightarrow> string option \<Rightarrow> string option \<Rightarrow>
   exn + (string option \<times> string option \<times> string option)" where
  "upload_files e avatarFile backgroundFile certificateFile avatar0 background0 certificate0 =
     (case upload_if_provided e avatarFile ''restaurant-avatars'' avatar0 of
        Inl err \<Rightarrow> Inl err
      | Inr avatarUrl \<Rightarrow>
      (case upload_if_provided e backgroundFile ''restaurant-backgrounds'' background0 of
         Inl err \<Rightarrow> Inl err
       | Inr backgroundUrl \<Rightarrow>
       (case upload_if_provided e certificateFile ''restaurant-certificates'' certificate0 of
          Inl err \<Rightarrow> Inl err
        | Inr certificateUrl \<Rightarrow> Inr (avatarUrl, backgroundUrl, certificateUrl))))"

text \<open>
  The outer \<open>catch\<close> of \<open>requestRestaurantWithFiles\<close> and \<open>requestRestaurant\<close>: a
  \<open>BadRequestException\<close> is rethrown, anything else is wrapped into one.
\<close>

definition rethrow_BadRequest :: "string \<Rightarrow> exn \<Rightarrow> exn" where
  "rethrow_BadRequest prefix err =
     (if instanceof_BadRequestException err then err
      else BadRequestException (prefix @ message err))"

definition requestRestaurantWithFiles ::
  "env \<Rightarrow> CreateRestaurantDto \<Rightarrow> AddressData \<Rightarrow> MulterFile option \<Rightarrow> MulterFile option \<Rightarrow>
   MulterFile option \<Rightarrow> state \<Rightarrow> (exn + Restaurant) \<times> state" where
  "requestRestaurantWithFiles e createRestaurantDto addressData avatarFile backgroundFile
       certificateFile s =
     (if \<not> truthy (dto_ownerId createRestaurantDto)
      then (Inl (rethrow_BadRequest ''Failed to create restaurant: ''
                   (BadRequestException ''Owner ID is required'')), s)
      else
        case userRepository_findOne (the (dto_ownerId createRestaurantDto)) s of
          None \<Rightarrow> (Inl (rethrow_BadRequest ''Failed to create restaurant: ''
                          (BadRequestException ''Owner not found'')), s)
        | Some owner' \<Rightarrow>
            let address0 = addressRepository_create addressData;
                (address1, s1) = set_coordinates e createRestaurantDto addressData address0 s;
                (address2, s2) = addressRepository_save e address1 s1
            in case upload_files e avatarFile backgroundFile certificateFile
                      (Some '''') (Some '''') (Some '''') of
                 Inl uploadError \<Rightarrow>
                   (Inl (rethrow_BadRequest ''Failed to create restaurant: ''
                           (BadRequestException
                              (''File upload failed: '' @ message uploadError))),
                    logger_error ''Error uploading files:'' s2)
               | Inr (avatarUrl, backgroundUrl, certificateUrl) \<Rightarrow>
                   let restaurant =
                         \<lparr>restaurant_id = None,
                          restaurant_name = dto_name createRestaurantDto,
                          description = dto_description createRestaurantDto,
                          openTime = dto_openTime createRestaurantDto,
                          closeTime = dto_closeTime createRestaurantDto,
                          latitude = parseFloat_if_truthy e (dto_latitude createRestaurantDto),
                          longitude = parseFloat_if_truthy e (dto_longitude createRestaurantDto),
                          avatar = avatarUrl,
                          backgroundImage = backgroundUrl,
                          certificateImage = certificateUrl,
                          owner = Some owner',
                          address = Some address2,
                          status = APPROVED\<rparr>;
                       (saved, s3) = restaurantRepository_save e restaurant s2
                   in (Inr saved, s3))"

text \<open>
  Lines 367-374 and 418-425: a truthy address string becomes a saved \<open>Address\<close> with
  that street, attached to the restaurant.
\<close>

definition attach_address ::
  "env \<Rightarrow> string option \<Rightarrow> Restaurant \<Rightarrow> state \<Rightarrow> Restaurant \<times> state" where
  "attach_address e addressString restaurant s =
     (if truthy addressString
      then (case addressRepository_save e
                    (addressRepository_create_street (the addressString)) s of
              (address', s') \<Rightarrow> (restaurant\<lparr>address := Some address'\<rparr>, s'))
      else (restaurant, s))"

text \<open>
  \<open>create\<close> of the restaurant service (lines 343-383).  Its \<open>catch\<close> wraps every
  error into a plain \<open>Error\<close>.
\<close>

definition RestaurantService_create ::
  "env \<Rightarrow> CreateRestaurantDto \<Rightarrow> state \<Rightarrow> (exn + Restaurant) \<times> state" where
  "RestaurantService_create e createRestaurantDto s =
     (if truthy (dto_ownerId createRestaurantDto)
      then
        case userRepository_findOne (the (dto_ownerId createRestaurantDto)) s of
          None \<Rightarrow>
            (Inl (Error (''Failed to create restaurant: '' @ message (Error ''Owner not found''))),
             s)
        | Some owner' \<Rightarrow>
            let restaurant =
                  \<lparr>restaurant_id = None,
                   restaurant_name = dto_name createRestaurantDto,
                   description = dto_description createRestaurantDto,
                   openTime = dto_openTime createRestaurantDto,
                   closeTime = dto_closeTime createRestaurantDto,
                   latitude = parseFloat_if_truthy e (dto_latitude createRestaurantDto),
                   longitude = parseFloat_if_truthy e (dto_longitude createRestaurantDto),
                   avatar = None,
                   backgroundImage = None,
                   certificateImage = None,
                   owner = Some owner',
                   address = None,
                   status = APPROVED\<rparr>;
                (restaurant1, s1) =
                  attach_address e (dto_address createRestaurantDto) restaurant s;
                (saved, s2) = restaurantRepository_save e restaurant1 s1
            in (Inr saved, s2)
      else
        (Inl (Error (''Failed to create restaurant: '' @ message (Error ''Owner ID is required''))),
         s))"

definition requestRestaurant ::
  "env \<Rightarrow> CreateRestaurantDto \<Rightarrow> state \<Rightarrow> (exn + Restaurant) \<times> state" where
  "requestRestaurant e createRestaurantDto s =
     (if truthy (dto_ownerId createRestaurantDto)
      then
        case userRepository_findOne (the (dto_ownerId createRestaurantDto)) s of
          None \<Rightarrow>
            (Inl (rethrow_BadRequest ''Failed to request restaurant: ''
                    (BadRequestException ''Owner not found'')), s)
        | Some owner' \<Rightarrow>
            let restaurant =
                  \<lparr>restaurant_id = None,
                   restaurant_name = dto_name createRestaurantDto,
                   description = dto_description createRestaurantDto,
                   openTime = dto_openTime createRestaurantDto,
                   closeTime = dto_closeTime createRestaurantDto,
                   latitude = parseFloat_if_truthy e (dto_latitude createRestaurantDto),
                   longitude = parseFloat_if_truthy e (dto_longitude createRestaurantDto),
                   avatar = None,
                   backgroundImage = None,
                   certificateImage = None,
                   owner = Some owner',
                   address = None,
                   status = PENDING\<rparr>;
                (restaurant1, s1) =
                  attach_address e (dto_address createRestaurantDto) restaurant s;
                (saved, s2) = restaurantRepository_save e restaurant1 s1
            in (Inr saved, s2)
      else
        (Inl (rethrow_BadRequest ''Failed to request restaurant: ''
                (BadRequestException ''Owner ID is required'')), s))"

definition approveRestaurant :: "env \<Rightarrow> string \<Rightarrow> state \<Rightarrow> (exn + Restaurant) \<times> state" where
  "approveRestaurant e rid s =
     (case findOne rid s of
        (Inl err, s1) \<Rightarrow> (Inl err, s1)
      | (Inr restaurant, s1) \<Rightarrow>
          if status restaurant \<noteq> PENDING
          then (Inl (BadRequestException
                  (''Restaurant with ID '' @ rid @ '' is not in pending status'')), s1)
          else (case restaurantRepository_save e (restaurant\<lparr>status := APPROVED\<rparr>) s1 of
                  (saved, s2) \<Rightarrow> (Inr saved, s2)))"

definition rejectRestaurant :: "env \<Rightarrow> string \<Rightarrow> state \<Rightarrow> (exn + Restaurant) \<times> state" where
  "rejectRestaurant e rid s =
     (case findOne rid s of
        (Inl err, s1) \<Rightarrow> (Inl err, s1)
      | (Inr restaurant, s1) \<Rightarrow>
          if status restaurant \<noteq> PENDING
          then (Inl (BadRequestException
                  (''Restaurant with ID '' @ rid @ '' is not in pending status'')), s1)
          else (case restaurantRepository_save e (restaurant\<lparr>status := REJECTED\<rparr>) s1 of
                  (saved, s2) \<Rightarrow> (Inr saved, s2)))"

definition deleteRestaurantRequest :: "string \<Rightarrow> state \<Rightarrow> (exn + unit) \<times> state" where
  "deleteRestaurantRequest rid s =
     (case findOne rid s of
        (Inl err, s1) \<Rightarrow> (Inl err, s1)
      | (Inr restaurant, s1) \<Rightarrow>
          if status restaurant \<noteq> PENDING
          then (Inl (BadRequestException
                  (''Restaurant with ID '' @ rid @ '' is not a pending request'')), s1)
          else (case delete_rows restaurant_id (Some rid) (restaurantRepository s1) of
                  (affected, rows) \<Rightarrow>
                    let s2 = s1\<lparr>restaurantRepository := rows\<rparr> in
                    if affected = 0
                    then (Inl (NotFoundException
                            (''Restaurant request with ID '' @ rid @ '' not found'')), s2)
                    else (Inr (), s2)))"

subsection \<open>Listing\<close>













subsection \<open>Updates with attachments\<close>

text \<open>
  \<open>Object.assign(restaurant, updateRestaurantDto)\<close>: every property the DTO carries
  overwrites the entity's.  \<open>ownerId\<close> has been consumed before (it is not a column).
\<close>

definition assign_restaurant :: "Restaurant \<Rightarrow> UpdateRestaurantDto \<Rightarrow> Restaurant" where
  "assign_restaurant r d =
     r\<lparr>restaurant_name := (case upd_name d of None \<Rightarrow> restaurant_name r | Some v \<Rightarrow> Some v),
       description := (case upd_description d of None \<Rightarrow> description r | Some v \<Rightarrow> Some v),
       openTime := (case upd_openTime d of None \<Rightarrow> openTime r | Some v \<Rightarrow> Some v),
       closeTime := (case upd_closeTime d of None \<Rightarrow> closeTime r | Some v \<Rightarrow> Some v)\<rparr>"

text \<open>
  The clean-up of \<open>updateWithFiles\<close> (lines 199-210): each
  \<open>await this.gcsService.deleteFile(old)\<close> stands unguarded inside the \<open>try\<close>, so a
  rejection leaves the block with that error.
\<close>

definition delete_if_replaced :: "env \<Rightarrow> MulterFile option \<Rightarrow> string option \<Rightarrow> exn + unit" where
  "delete_if_replaced e file oldUrl =
     (if file \<noteq> None \<and> truthy oldUrl then deleteFile e (the oldUrl) else Inr ())"

definition cleanup_old_images ::
  "env \<Rightarrow> MulterFile option \<Rightarrow> MulterFile option \<Rightarrow> MulterFile option \<Rightarrow>
   string option \<Rightarrow> string option \<Rightarrow> string option \<Rightarrow> exn + unit" where
  "cleanup_old_images e avatarFile backgroundFile certificateFile
       oldAvatarUrl oldBackgroundUrl oldCertificateUrl =
     (case delete_if_replaced e avatarFile oldAvatarUrl of
        Inl err \<Rightarrow> Inl err
      | Inr u \<Rightarrow>
      (case delete_if_replaced e backgroundFile oldBackgroundUrl of
         Inl err \<Rightarrow> Inl err
       | Inr u \<Rightarrow> delete_if_replaced e certificateFile oldCertificateUrl))"

text \<open>
  The clean-up of \<open>updateWithAddressAndFiles\<close> (lines 312-329): each deletion carries
  \<open>.catch(err => this.logger.warn(...))\<close>, so a rejection becomes a warning.
\<close>

definition delete_if_replaced_catch ::
  "env \<Rightarrow> MulterFile option \<Rightarrow> string option \<Rightarrow> string \<Rightarrow> state \<Rightarrow> state" where
  "delete_if_replaced_catch e file oldUrl what s =
     (if file \<noteq> None \<and> truthy oldUrl
      then (case deleteFile e (the oldUrl) of
              Inl err \<Rightarrow> logger_warn (''Failed to delete old '' @ what @ '': '' @ message err) s
            | Inr u \<Rightarrow> s)
      else s)"

definition cleanup_old_images_catch ::
  "env \<Rightarrow> MulterFile option \<Rightarrow> MulterFile option \<Rightarrow> MulterFile option \<Rightarrow>
   string option \<Rightarrow> string option \<Rightarrow> string option \<Rightarrow> state \<Rightarrow> state" where
  "cleanup_old_images_catch e avatarFile backgroundFile certificateFile
       oldAvatarUrl oldBackgroundUrl oldCertificateUrl s =
     delete_if_replaced_catch e certificateFile oldCertificateUrl ''certificate''
       (delete_if_replaced_catch e backgroundFile oldBackgroundUrl ''background image''
          (delete_if_replaced_catch e avatarFile oldAvatarUrl ''avatar'' s))"

text \<open>
  The owner step shared by the update methods: a truthy \<open>ownerId\<close> must name a user,
  who becomes the owner.  Before it both methods call \<open>findOne\<close>, which throws for an
  unknown id, so their own \<open>if (!restaurant)\<close> check is never taken.
\<close>

definition reassign_owner ::
  "UpdateRestaurantDto \<Rightarrow> Restaurant \<Rightarrow> state \<Rightarrow> exn + Restaurant" where
  "reassign_owner d restaurant s =
     (if truthy (upd_ownerId d)
      then (case userRepository_findOne (the (upd_ownerId d)) s of
              None \<Rightarrow> Inl (BadRequestException ''Owner not found'')
            | Some owner' \<Rightarrow> Inr (restaurant\<lparr>owner := Some owner'\<rparr>))
      else Inr restaurant)"

definition updateWithFiles ::
  "env \<Rightarrow> string \<Rightarrow> UpdateRestaurantDto \<Rightarrow> MulterFile option \<Rightarrow> MulterFile option \<Rightarrow>
   MulterFile option \<Rightarrow> state \<Rightarrow> (exn + Restaurant) \<times> state" where
  "updateWithFiles e rid updateRestaurantDto avatarFile backgroundFile certificateFile s =
     (case findOne rid s of
        (Inl err, s0) \<Rightarrow> (Inl err, s0)
      | (Inr restaurant0, s0) \<Rightarrow>
        (case reassign_owner updateRestaurantDto restaurant0 s0 of
           Inl err \<Rightarrow> (Inl err, s0)
         | Inr restaurant \<Rightarrow>
             let oldAvatarUrl = avatar restaurant;
                 oldBackgroundUrl = backgroundImage restaurant;
                 oldCertificateUrl = certificateImage restaurant
             in case upload_files e avatarFile backgroundFile certificateFile
                       (avatar restaurant) (backgroundImage restaurant)
                       (certificateImage restaurant) of
                  Inl err \<Rightarrow>
                    (Inl (BadRequestException
                            (''Failed to update restaurant: '' @ message err)), s0)
                | Inr (avatarUrl, backgroundUrl, certificateUrl) \<Rightarrow>
                    let restaurant1 =
                          assign_restaurant
                            (restaurant\<lparr>avatar := avatarUrl, backgroundImage := backgroundUrl,
                                        certificateImage := certificateUrl\<rparr>)
                            updateRestaurantDto;
                        (updatedRestaurant, s1) = restaurantRepository_save e restaurant1 s0
                    in case cleanup_old_images e avatarFile backgroundFile certificateFile
                              oldAvatarUrl oldBackgroundUrl oldCertificateUrl of
                         Inl err \<Rightarrow>
                           (Inl (BadRequestException
                                   (''Failed to update restaurant: '' @ message err)), s1)
                       | Inr u \<Rightarrow> (Inr updatedRestaurant, s1)))"

text \<open>
  \<open>Object.assign(address, addressData)\<close>.  The entity declarations are not among the
  sources: a relation is taken as loaded with its row, so \<open>restaurant.address\<close> is the
  address stored with the restaurant.
\<close>

definition assign_address :: "Address \<Rightarrow> AddressData \<Rightarrow> Address" where
  "assign_address a d =
     a\<lparr>street := Some (ad_street d), ward := Some (ad_ward d),
       district := Some (ad_district d), city := Some (ad_city d)\<rparr>"

definition updateWithAddressAndFiles ::
  "env \<Rightarrow> string \<Rightarrow> UpdateRestaurantDto \<Rightarrow> AddressData option \<Rightarrow> MulterFile option \<Rightarrow>
   MulterFile option \<Rightarrow> MulterFile option \<Rightarrow> state \<Rightarrow> (exn + Restaurant) \<times> state" where
  "updateWithAddressAndFiles e rid updateRestaurantDto addressData avatarFile backgroundFile
       certificateFile s =
     (case findOne rid s of
        (Inl err, s0) \<Rightarrow> (Inl err, s0)
      | (Inr restaurant0, s0) \<Rightarrow>
        (case reassign_owner updateRestaurantDto restaurant0 s0 of
           Inl err \<Rightarrow> (Inl err, s0)
         | Inr restaurant1 \<Rightarrow>
             let (restaurant, s1) =
                   (case addressData of
                      None \<Rightarrow> (restaurant1, s0)
                    | Some ad \<Rightarrow>
                        let address0 =
                              (case address restaurant1 of
                                 Some a \<Rightarrow> assign_address a ad
                               | None \<Rightarrow> addressRepository_create ad);
                            (address1, sa) = try_geocode e ad address0 s0;
                            (address2, sb) = addressRepository_save e address1 sa
                        in (restaurant1\<lparr>address := Some address2\<rparr>, sb));
                 oldAvatarUrl = avatar restaurant;
                 oldBackgroundUrl = backgroundImage restaurant;
                 oldCertificateUrl = certificateImage restaurant
             in case upload_files e avatarFile backgroundFile certificateFile
                       (avatar restaurant) (backgroundImage restaurant)
                       (certificateImage restaurant) of
                  Inl err \<Rightarrow>
                    (Inl (BadRequestException
                            (''Failed to update restaurant: '' @ message err)), s1)
                | Inr (avatarUrl, backgroundUrl, certificateUrl) \<Rightarrow>
                    let restaurant2 =
                          assign_restaurant
                            (restaurant\<lparr>avatar := avatarUrl, backgroundImage := backgroundUrl,
                                        certificateImage := certificateUrl\<rparr>)
                            updateRestaurantDto;
                        (updatedRestaurant, s2) = restaurantRepository_save e restaurant2 s1
                    in (Inr updatedRestaurant,
                        cleanup_old_images_catch e avatarFile backgroundFile certificateFile
                          oldAvatarUrl oldBackgroundUrl oldCertificateUrl s2)))"

section \<open>User lifecycle (users.service.ts)\<close>


record UpdateData =
  update_username :: "string option"
  update_email :: "string option"
  update_name :: "string option"
  update_password :: "string option"

record UpdateUserDto = UpdateData +
  update_role :: "string option"


text \<open>
  \<open>usersRepository.save(user)\<close>.  The user always carries its id.  When a row with the
  id is stored, the columns the entity leaves undefined keep their stored value and the
  others are overwritten; the call returns the entity it was given.
\<close>

definition update_defined :: "User \<Rightarrow> User \<Rightarrow> User" where
  "update_defined stored u =
     u\<lparr>user_name := (case user_name u of None \<Rightarrow> user_name stored | Some v \<Rightarrow> Some v),
       user_role := (case user_role u of None \<Rightarrow> user_role stored | Some v \<Rightarrow> Some v),
       user_authProvider :=
         (case user_authProvider u of None \<Rightarrow> user_authProvider stored | Some v \<Rightarrow> Some v),
       user_googleId :=
         (case user_googleId u of None \<Rightarrow> user_googleId stored | Some v \<Rightarrow> Some v)\<rparr>"

definition usersRepository_save :: "User \<Rightarrow> state \<Rightarrow> User \<times> state" where
  "usersRepository_save u s =
     (let row = (case find (\<lambda>x. user_id x = user_id u) (usersRepository s) of
                   None \<Rightarrow> u
                 | Some stored \<Rightarrow> update_defined stored u)
      in (u, s\<lparr>usersRepository := save_row user_id row (usersRepository s)\<rparr>))"

definition getMe :: "string \<Rightarrow> state \<Rightarrow> (exn + User) \<times> state" where
  "getMe uid s =
     (case find (\<lambda>u. user_id u = uid) (usersRepository s) of
        None \<Rightarrow> (Inl (Error (''User with id '' @ uid @ '' not found'')), s)
      | Some user \<Rightarrow> (Inr user, s))"

text \<open>
  The destructuring \<open>const { role, ...updateData } = updateUserDto\<close>: \<open>updateData\<close> is
  a new object with every property of the DTO but \<open>role\<close>.
\<close>

definition without_role :: "UpdateUserDto \<Rightarrow> UpdateData" where
  "without_role d =
     \<lparr>update_username = update_username d, update_email = update_email d,
      update_name = update_name d, update_password = update_password d\<rparr>"

text \<open>
  \<open>if (updateData.password) { updateData.password = await bcrypt.hash(updateData.password, 10); }\<close>
\<close>

definition hash_password_if_truthy :: "env \<Rightarrow> UpdateData \<Rightarrow> UpdateData" where
  "hash_password_if_truthy e d =
     (if truthy (update_password d)
      then d\<lparr>update_password := Some (bcrypt_hash e (the (update_password d)) 10)\<rparr>
      else d)"

text \<open>\<open>Object.assign(user, updateData)\<close>\<close>

definition assign_user :: "User \<Rightarrow> UpdateData \<Rightarrow> User" where
  "assign_user u d =
     u\<lparr>user_username := (case update_username d of None \<Rightarrow> user_username u | Some v \<Rightarrow> v),
       user_email := (case update_email d of None \<Rightarrow> user_email u | Some v \<Rightarrow> v),
       user_name := (case update_name d of None \<Rightarrow> user_name u | Some v \<Rightarrow> Some v),
       user_password := (case update_password d of None \<Rightarrow> user_password u | Some v \<Rightarrow> v)\<rparr>"

definition updateMe :: "env \<Rightarrow> string \<Rightarrow> UpdateUserDto \<Rightarrow> state \<Rightarrow> (exn + User) \<times> state" where
  "updateMe e uid updateUserDto s =
     (case getMe uid s of
        (Inl err, s0) \<Rightarrow> (Inl err, s0)
      | (Inr user, s0) \<Rightarrow>
          let updateData = hash_password_if_truthy e (without_role updateUserDto);
              (saved, s1) = usersRepository_save (assign_user user updateData) s0
          in (Inr saved, s1))"



section \<open>Specification vocabulary and example data\<close>

text \<open>A call succeeds when it returns a value rather than throwing.\<close>

definition succeeds :: "('e + 'a) \<times> 's \<Rightarrow> bool" where
  "succeeds res = (case fst res of Inl err \<Rightarrow> False | Inr v \<Rightarrow> True)"


text \<open>
  An upload of a provided file fails: the storage service rejects the avatar, the
  background or the certificate file in its folder.
\<close>

definition some_upload_fails ::
  "env \<Rightarrow> MulterFile option \<Rightarrow> MulterFile option \<Rightarrow> MulterFile option \<Rightarrow> bool" where
  "some_upload_fails e avatarFile backgroundFile certificateFile \<longleftrightarrow>
     (case avatarFile of None \<Rightarrow> False
      | Some f \<Rightarrow> isl (uploadPublicFile e f ''restaurant-avatars''))
   \<or> (case backgroundFile of None \<Rightarrow> False
      | Some f \<Rightarrow> isl (uploadPublicFile e f ''restaurant-backgrounds''))
   \<or> (case certificateFile of None \<Rightarrow> False
      | Some f \<Rightarrow> isl (uploadPublicFile e f ''restaurant-certificates''))"


definition role_user :: Role where
  "role_user = \<lparr>role_id = ''role-2'', role_name = ''USER''\<rparr>"

definition alice :: User where
  "alice = \<lparr>user_id = ''u1'', user_username = ''alice'', user_email = ''a@x.com'',
            user_name = None, user_password = ''$2a$10$pw123'', user_role = Some role_user,
            user_authProvider = None, user_googleId = None\<rparr>"



definition joes :: "RestaurantStatus \<Rightarrow> Restaurant" where
  "joes st =
     \<lparr>restaurant_id = Some ''r1'', restaurant_name = Some ''Joes'', description = None,
      openTime = None, closeTime = None, latitude = None, longitude = None,
      avatar = Some ''old-avatar.png'', backgroundImage = None, certificateImage = None,
      owner = Some alice, address = None, status = st\<rparr>"


definition example_state :: "Restaurant list \<Rightarrow> state" where
  "example_state rs =
     \<lparr>usersRepository = [alice], rolesRepository = [role_user], addressRepository = [],
      restaurantRepository = rs, logger = []\<rparr>"

lift_definition example_hasher :: hasher is "\<lambda>p rounds. ''$2a$10$'' @ p"
  by simp

definition example_env ::
  "(MulterFile \<Rightarrow> string \<Rightarrow> exn + string) \<Rightarrow> (string \<Rightarrow> exn + unit) \<Rightarrow>
   (AddressData \<Rightarrow> exn + Coordinates option) \<Rightarrow> env" where
  "example_env up del geo =
     \<lparr>uploadPublicFile = up, deleteFile = del, geocode = geo,
      parseFloat = (\<lambda>x. NaN), bcrypt = example_hasher,
      uuidv4 = ''123e4567-e89b-42d3-a456-426614174000'',
      generated_address_id = ''a1'', generated_restaurant_id = ''r2''\<rparr>"

definition upload_ok :: "MulterFile \<Rightarrow> string \<Rightarrow> exn + string" where
  "upload_ok f folder = Inr (''https://storage/'' @ folder @ ''/'' @ f)"

definition upload_rejects :: "MulterFile \<Rightarrow> string \<Rightarrow> exn + string" where
  "upload_rejects f folder = Inl (Error ''bucket unavailable'')"

definition delete_ok :: "string \<Rightarrow> exn + unit" where
  "delete_ok url = Inr ()"

definition delete_rejects :: "string \<Rightarrow> exn + unit" where
  "delete_rejects url = Inl (Error ''object not found'')"

definition geocode_rejects :: "AddressData \<Rightarrow> exn + Coordinates option" where
  "geocode_rejects d = Inl (Error ''geocoder timeout'')"

definition example_dto :: CreateRestaurantDto where
  "example_dto =
     \<lparr>dto_name = Some ''Joes'', dto_description = None, dto_openTime = None,
      dto_closeTime = None, dto_ownerId = Some ''u1'', dto_address = None,
      dto_latitude = None, dto_longitude = None\<rparr>"

definition example_address :: AddressData where
  "example_address =
     \<lparr>ad_street = ''1 Le Loi'', ad_ward = ''Ben Nghe'', ad_district = ''1'', ad_city = ''HCMC''\<rparr>"

definition example_update :: UpdateRestaurantDto where
  "example_update =
     \<lparr>upd_name = None, upd_description = None, upd_openTime = None, upd_closeTime = None,
      upd_ownerId = None\<rparr>"



definition example_update_user :: UpdateUserDto where
  "example_update_user =
     \<lparr>update_username = Some ''alice2'', update_email = None, update_name = None,
      update_password = Some ''newpw'', update_role = Some ''role-admin''\<rparr>"



section \<open>Repository lemmas\<close>

lemma find_Some_holds: "find P rows = Some r \<Longrightarrow> r \<in> set rows \<and> P r"
  by (induction rows) (auto split: if_splits)

lemma find_save_row:
  "find (\<lambda>x. key x = k) rows = Some r \<Longrightarrow> key y = k \<Longrightarrow>
   find (\<lambda>x. key x = k) (save_row key y rows) = Some y"
proof -
  assume f: "find (\<lambda>x. key x = k) rows = Some r" and ky: "key y = k"
  have ex: "list_ex (\<lambda>x. key x = key y) rows"
    using find_Some_holds [OF f] ky by (auto simp: list_ex_iff)
  have "find (\<lambda>x. key x = k) (map (\<lambda>x. if key x = k then y else x) rows) = Some y"
    using f ky by (induction rows) (auto split: if_splits)
  then show ?thesis using ex ky by (simp add: save_row_def)
qed

lemma save_row_existing:
  "find (\<lambda>x. key x = k) rows = Some r \<Longrightarrow> key y = k \<Longrightarrow>
   save_row key y rows = map (\<lambda>x. if key x = k then y else x) rows"
  using find_Some_holds [of "\<lambda>x. key x = k" rows r] by (auto simp: save_row_def list_ex_iff)

lemma save_row_fresh:
  "find (\<lambda>x. key x = key y) rows = None \<Longrightarrow> save_row key y rows = rows @ [y]"
  by (auto simp: save_row_def list_ex_iff find_None_iff)

lemma find_append_last:
  "find P rows = None \<Longrightarrow> P y \<Longrightarrow> find P (rows @ [y]) = Some y"
  by (induction rows) (auto split: if_splits)

lemma save_row_found: "find (\<lambda>x. key x = key y) (save_row key y rows) = Some y"
proof (cases "find (\<lambda>x. key x = key y) rows")
  case None
  then show ?thesis
    by (simp add: save_row_fresh find_append_last)
next
  case (Some r)
  then show ?thesis
    by (rule find_save_row) simp
qed

lemma find_filter_other: "find (\<lambda>x. key x = k) (filter (\<lambda>x. key x \<noteq> k) rows) = None"
  by (simp add: find_None_iff)

lemma find_Some_filter_nonempty: "find P rows = Some r \<Longrightarrow> filter P rows \<noteq> []"
  using find_Some_holds [of P rows r] by (auto simp: filter_empty_conv)

section \<open>Status transitions\<close>

text \<open>
  C1.  For a restaurant that exists, \<open>approveRestaurant\<close> succeeds exactly when its
  status is PENDING, and so does \<open>rejectRestaurant\<close>.  On success the call returns the
  restaurant with status APPROVED (REJECTED for a rejection), that is the row found under
  the id afterwards, and no other row changes.  On a restaurant whose status is APPROVED or
  REJECTED both calls throw a \<open>BadRequestException\<close> and the state after the call is the
  state before it.
\<close>

theorem approve_reject_pending_only:
  assumes "find (\<lambda>x. restaurant_id x = Some rid) (restaurantRepository s) = Some r"
  shows "(succeeds (approveRestaurant e rid s) \<longleftrightarrow> status r = PENDING)
       \<and> (succeeds (rejectRestaurant e rid s) \<longleftrightarrow> status r = PENDING)
       \<and> (status r = PENDING \<longrightarrow>
            (let s' = snd (approveRestaurant e rid s) in
               fst (approveRestaurant e rid s) = Inr (r\<lparr>status := APPROVED\<rparr>)
             \<and> find (\<lambda>x. restaurant_id x = Some rid) (restaurantRepository s')
                 = Some (r\<lparr>status := APPROVED\<rparr>)
             \<and> restaurantRepository s'
                 = map (\<lambda>x. if restaurant_id x = Some rid then r\<lparr>status := APPROVED\<rparr> else x)
                     (restaurantRepository s))
          \<and> (let s' = snd (rejectRestaurant e rid s) in
               fst (rejectRestaurant e rid s) = Inr (r\<lparr>status := REJECTED\<rparr>)
             \<and> find (\<lambda>x. restaurant_id x = Some rid) (restaurantRepository s')
                 = Some (r\<lparr>status := REJECTED\<rparr>)
             \<and> restaurantRepository s'
                 = map (\<lambda>x. if restaurant_id x = Some rid then r\<lparr>status := REJECTED\<rparr> else x)
                     (restaurantRepository s)))
       \<and> (status r \<in> {APPROVED, REJECTED} \<longrightarrow>
            (\<exists>m. approveRestaurant e rid s = (Inl (BadRequestException m), s))
          \<and> (\<exists>m. rejectRestaurant e rid s = (Inl (BadRequestException m), s)))"
proof -
  have rid: "restaurant_id r = Some rid"
    using find_Some_holds [OF assms] by simp
  have fo: "findOne rid s = (Inr r, s)"
    using assms by (simp add: findOne_def)
  show ?thesis
  proof (cases "status r = PENDING")
    case True
    have a: "approveRestaurant e rid s =
        (Inr (r\<lparr>status := APPROVED\<rparr>),
         s\<lparr>restaurantRepository :=
             save_row restaurant_id (r\<lparr>status := APPROVED\<rparr>) (restaurantRepository s)\<rparr>)"
      using True rid by (simp add: approveRestaurant_def fo restaurantRepository_save_def)
    have b: "rejectRestaurant e rid s =
        (Inr (r\<lparr>status := REJECTED\<rparr>),
         s\<lparr>restaurantRepository :=
             save_row restaurant_id (r\<lparr>status := REJECTED\<rparr>) (restaurantRepository s)\<rparr>)"
      using True rid by (simp add: rejectRestaurant_def fo restaurantRepository_save_def)
    show ?thesis
      using True rid
        find_save_row [OF assms, of "r\<lparr>status := APPROVED\<rparr>"]
        find_save_row [OF assms, of "r\<lparr>status := REJECTED\<rparr>"]
        save_row_existing [OF assms, of "r\<lparr>status := APPROVED\<rparr>"]
        save_row_existing [OF assms, of "r\<lparr>status := REJECTED\<rparr>"]
      by (simp add: a b succeeds_def)
  next
    case False
    then show ?thesis
      by (simp add: approveRestaurant_def rejectRestaurant_def fo succeeds_def)
  qed
qed

text \<open>
  The theorem at a pending and at an approved restaurant: the first is approved, the
  second is refused and the state stays as it was.
\<close>

theorem approve_reject_pending_only_witness:
  "find (\<lambda>x. restaurant_id x = Some ''r1'') (restaurantRepository (example_state [joes PENDING]))
     = Some (joes PENDING)
   \<and> status (joes PENDING) = PENDING
   \<and> succeeds (approveRestaurant (example_env upload_ok delete_ok geocode_rejects) ''r1''
                 (example_state [joes PENDING]))
   \<and> restaurantRepository
        (snd (approveRestaurant (example_env upload_ok delete_ok geocode_rejects) ''r1''
                (example_state [joes PENDING]))) = [joes APPROVED]
   \<and> restaurantRepository
        (snd (rejectRestaurant (example_env upload_ok delete_ok geocode_rejects) ''r1''
                (example_state [joes PENDING]))) = [joes REJECTED]
   \<and> find (\<lambda>x. restaurant_id x = Some ''r1'') (restaurantRepository (example_state [joes APPROVED]))
     = Some (joes APPROVED)
   \<and> status (joes APPROVED) \<in> {APPROVED, REJECTED}
   \<and> \<not> succeeds (approveRestaurant (example_env upload_ok delete_ok geocode_rejects) ''r1''
                   (example_state [joes APPROVED]))
   \<and> snd (approveRestaurant (example_env upload_ok delete_ok geocode_rejects) ''r1''
            (example_state [joes APPROVED])) = example_state [joes APPROVED]
   \<and> snd (rejectRestaurant (example_env upload_ok delete_ok geocode_rejects) ''r1''
            (example_state [joes APPROVED])) = example_state [joes APPROVED]"
proof -
  have p: "find (\<lambda>x. restaurant_id x = Some ''r1'')
             (restaurantRepository (example_state [joes PENDING])) = Some (joes PENDING)"
    by (simp add: example_state_def joes_def)
  have a: "find (\<lambda>x. restaurant_id x = Some ''r1'')
             (restaurantRepository (example_state [joes APPROVED])) = Some (joes APPROVED)"
    by (simp add: example_state_def joes_def)
  have sp: "status (joes PENDING) = PENDING" and sa: "status (joes APPROVED) = APPROVED"
    by (simp_all add: joes_def)
  have up: "(joes PENDING)\<lparr>status := APPROVED\<rparr> = joes APPROVED"
    "(joes PENDING)\<lparr>status := REJECTED\<rparr> = joes REJECTED"
    by (simp_all add: joes_def)
  have rows: "restaurantRepository (example_state [joes PENDING]) = [joes PENDING]"
    "restaurant_id (joes PENDING) = Some ''r1''"
    by (simp_all add: example_state_def joes_def)
  from approve_reject_pending_only [OF p, of "example_env upload_ok delete_ok geocode_rejects"]
       approve_reject_pending_only [OF a, of "example_env upload_ok delete_ok geocode_rejects"]
  show ?thesis
    using p a sp sa up rows by (auto simp: Let_def)
qed

text \<open>
  C2.  \<open>deleteRestaurantRequest\<close> succeeds exactly when a restaurant with the id exists
  and its status is PENDING; then no row with the id is left and every other row stays.
  Whenever it fails the state is unchanged, and on an APPROVED or REJECTED restaurant the
  failure is a \<open>BadRequestException\<close>.
\<close>

theorem deleteRestaurantRequest_pending_only:
  "(succeeds (deleteRestaurantRequest rid s) \<longleftrightarrow>
      (\<exists>r. find (\<lambda>x. restaurant_id x = Some rid) (restaurantRepository s) = Some r
           \<and> status r = PENDING))
   \<and> (succeeds (deleteRestaurantRequest rid s) \<longrightarrow>
        (let s' = snd (deleteRestaurantRequest rid s) in
           find (\<lambda>x. restaurant_id x = Some rid) (restaurantRepository s') = None
         \<and> restaurantRepository s'
             = filter (\<lambda>x. restaurant_id x \<noteq> Some rid) (restaurantRepository s)))
   \<and> (\<not> succeeds (deleteRestaurantRequest rid s) \<longrightarrow>
        snd (deleteRestaurantRequest rid s) = s)
   \<and> (\<forall>r. find (\<lambda>x. restaurant_id x = Some rid) (restaurantRepository s) = Some r
           \<and> status r \<in> {APPROVED, REJECTED} \<longrightarrow>
           (\<exists>m. deleteRestaurantRequest rid s = (Inl (BadRequestException m), s)))"
proof (cases "find (\<lambda>x. restaurant_id x = Some rid) (restaurantRepository s)")
  case None
  then show ?thesis
    by (simp add: deleteRestaurantRequest_def findOne_def succeeds_def)
next
  case (Some r)
  have fo: "findOne rid s = (Inr r, s)"
    using Some by (simp add: findOne_def)
  have ne: "filter (\<lambda>x. restaurant_id x = Some rid) (restaurantRepository s) \<noteq> []"
    using Some by (rule find_Some_filter_nonempty)
  show ?thesis
  proof (cases "status r = PENDING")
    case True
    then show ?thesis
      using ne Some
      by (simp add: deleteRestaurantRequest_def fo succeeds_def delete_rows_def Let_def
          find_filter_other)
  next
    case False
    then show ?thesis
      using Some by (simp add: deleteRestaurantRequest_def fo succeeds_def)
  qed
qed

text \<open>
  The theorem at a pending request, which is deleted, and at a rejected restaurant, which
  stays.
\<close>

theorem deleteRestaurantRequest_pending_only_witness:
  "succeeds (deleteRestaurantRequest ''r1'' (example_state [joes PENDING]))
   \<and> restaurantRepository (snd (deleteRestaurantRequest ''r1'' (example_state [joes PENDING]))) = []
   \<and> find (\<lambda>x. restaurant_id x = Some ''r1'') (restaurantRepository (example_state [joes REJECTED]))
       = Some (joes REJECTED)
   \<and> status (joes REJECTED) \<in> {APPROVED, REJECTED}
   \<and> \<not> succeeds (deleteRestaurantRequest ''r1'' (example_state [joes REJECTED]))
   \<and> snd (deleteRestaurantRequest ''r1'' (example_state [joes REJECTED]))
       = example_state [joes REJECTED]"
proof -
  have p: "find (\<lambda>x. restaurant_id x = Some ''r1'')
             (restaurantRepository (example_state [joes PENDING])) = Some (joes PENDING)"
    by (simp add: example_state_def joes_def)
  have a: "find (\<lambda>x. restaurant_id x = Some ''r1'')
             (restaurantRepository (example_state [joes REJECTED])) = Some (joes REJECTED)"
    by (simp add: example_state_def joes_def)
  have sp: "status (joes PENDING) = PENDING" and sa: "status (joes REJECTED) = REJECTED"
    by (simp_all add: joes_def)
  have rows: "restaurantRepository (example_state [joes PENDING]) = [joes PENDING]"
    "restaurant_id (joes PENDING) = Some ''r1''"
    by (simp_all add: example_state_def joes_def)
  from deleteRestaurantRequest_pending_only [of "''r1''" "example_state [joes PENDING]"]
       deleteRestaurantRequest_pending_only [of "''r1''" "example_state [joes REJECTED]"]
  show ?thesis
    using p a sp sa rows by (auto simp: Let_def)
qed

section \<open>Effects of the building blocks\<close>

lemma try_geocode_repositories:
  "restaurantRepository (snd (try_geocode e ad a s)) = restaurantRepository s"
  "addressRepository (snd (try_geocode e ad a s)) = addressRepository s"
  "usersRepository (snd (try_geocode e ad a s)) = usersRepository s"
  "address_id (fst (try_geocode e ad a s)) = address_id a"
  by (simp_all add: try_geocode_def logger_log_def logger_warn_def logger_error_def
        split: sum.splits option.splits)

lemma set_coordinates_repositories:
  "restaurantRepository (snd (set_coordinates e dto ad a s)) = restaurantRepository s"
  "addressRepository (snd (set_coordinates e dto ad a s)) = addressRepository s"
  "usersRepository (snd (set_coordinates e dto ad a s)) = usersRepository s"
  "address_id (fst (set_coordinates e dto ad a s)) = address_id a"
  by (simp_all add: set_coordinates_def try_geocode_repositories)

lemma addressRepository_save_new:
  "address_id a = None \<Longrightarrow>
   addressRepository_save e a s =
     (a\<lparr>address_id := Some (generated_address_id e)\<rparr>,
      s\<lparr>addressRepository :=
          addressRepository s @ [a\<lparr>address_id := Some (generated_address_id e)\<rparr>]\<rparr>)"
  by (simp add: addressRepository_save_def Let_def)

lemma addressRepository_save_restaurants:
  "restaurantRepository (snd (addressRepository_save e a s)) = restaurantRepository s"
  by (simp add: addressRepository_save_def Let_def split: option.splits)

lemma attach_address_restaurants:
  "restaurantRepository (snd (attach_address e str r s)) = restaurantRepository s"
  "status (fst (attach_address e str r s)) = status r"
  "restaurant_id (fst (attach_address e str r s)) = restaurant_id r"
  by (simp_all add: attach_address_def addressRepository_save_def Let_def
        addressRepository_create_street_def split: prod.splits)

lemma restaurantRepository_save_new:
  "restaurant_id r = None \<Longrightarrow>
   restaurantRepository_save e r s =
     (r\<lparr>restaurant_id := Some (generated_restaurant_id e)\<rparr>,
      s\<lparr>restaurantRepository :=
          restaurantRepository s @ [r\<lparr>restaurant_id := Some (generated_restaurant_id e)\<rparr>]\<rparr>)"
  by (simp add: restaurantRepository_save_def Let_def)

lemma upload_files_rejected_iff:
  "(\<exists>err. upload_files e av bg ce a0 b0 c0 = Inl err) \<longleftrightarrow> some_upload_fails e av bg ce"
  by (auto simp: upload_files_def upload_if_provided_def some_upload_fails_def isl_def
        split: option.splits sum.splits)

section \<open>Status at creation\<close>

text \<open>
  C3.  With a truthy \<open>ownerId\<close> that names a stored user, \<open>requestRestaurant\<close>
  returns and appends to the table a restaurant with status PENDING, \<open>create\<close> one with
  status APPROVED, and whenever \<open>requestRestaurantWithFiles\<close> returns a restaurant, which
  it does when no upload is rejected, it has appended it with status APPROVED.
\<close>

theorem creation_status:
  assumes "truthy (dto_ownerId dto)"
    and "userRepository_findOne (the (dto_ownerId dto)) s = Some u"
  shows "(\<exists>r s'. requestRestaurant e dto s = (Inr r, s') \<and> status r = PENDING
            \<and> restaurantRepository s' = restaurantRepository s @ [r])
       \<and> (\<exists>r s'. RestaurantService_create e dto s = (Inr r, s') \<and> status r = APPROVED
            \<and> restaurantRepository s' = restaurantRepository s @ [r])
       \<and> (\<forall>r s'. requestRestaurantWithFiles e dto ad av bg ce s = (Inr r, s') \<longrightarrow>
            status r = APPROVED \<and> restaurantRepository s' = restaurantRepository s @ [r])
       \<and> (\<not> some_upload_fails e av bg ce \<longrightarrow>
            succeeds (requestRestaurantWithFiles e dto ad av bg ce s))"
proof (intro conjI)
  show "\<exists>r s'. requestRestaurant e dto s = (Inr r, s') \<and> status r = PENDING
            \<and> restaurantRepository s' = restaurantRepository s @ [r]"
    using assms
    by (simp add: requestRestaurant_def Let_def split_beta restaurantRepository_save_new
          attach_address_restaurants)
  show "\<exists>r s'. RestaurantService_create e dto s = (Inr r, s') \<and> status r = APPROVED
            \<and> restaurantRepository s' = restaurantRepository s @ [r]"
    using assms
    by (simp add: RestaurantService_create_def Let_def split_beta restaurantRepository_save_new
          attach_address_restaurants)
  show "\<forall>r s'. requestRestaurantWithFiles e dto ad av bg ce s = (Inr r, s') \<longrightarrow>
            status r = APPROVED \<and> restaurantRepository s' = restaurantRepository s @ [r]"
    using assms
    by (auto simp: requestRestaurantWithFiles_def Let_def split_beta
          restaurantRepository_save_new addressRepository_save_restaurants
          set_coordinates_repositories split: sum.splits)
  show "\<not> some_upload_fails e av bg ce \<longrightarrow>
            succeeds (requestRestaurantWithFiles e dto ad av bg ce s)"
    using assms upload_files_rejected_iff [of e av bg ce "Some ''''" "Some ''''" "Some ''''"]
    by (auto simp: requestRestaurantWithFiles_def Let_def split_beta succeeds_def
          restaurantRepository_save_new split: sum.splits)
qed

text \<open>
  The theorem for the owner \<open>u1\<close> on an empty restaurant table, with an avatar file
  whose upload resolves.
\<close>

theorem creation_status_witness:
  "truthy (dto_ownerId example_dto)
   \<and> userRepository_findOne (the (dto_ownerId example_dto)) (example_state []) = Some alice
   \<and> \<not> some_upload_fails (example_env upload_ok delete_ok geocode_rejects)
          (Some ''avatar.png'') None None
   \<and> map status (restaurantRepository
         (snd (requestRestaurant (example_env upload_ok delete_ok geocode_rejects)
                 example_dto (example_state [])))) = [PENDING]
   \<and> map status (restaurantRepository
         (snd (RestaurantService_create (example_env upload_ok delete_ok geocode_rejects)
                 example_dto (example_state [])))) = [APPROVED]
   \<and> map status (restaurantRepository
         (snd (requestRestaurantWithFiles (example_env upload_ok delete_ok geocode_rejects)
                 example_dto example_address (Some ''avatar.png'') None None
                 (example_state [])))) = [APPROVED]"
proof -
  let ?e = "example_env upload_ok delete_ok geocode_rejects"
  have h1: "truthy (dto_ownerId example_dto)"
    by (simp add: example_dto_def)
  have h2: "userRepository_findOne (the (dto_ownerId example_dto)) (example_state []) = Some alice"
    by (simp add: example_dto_def userRepository_findOne_def example_state_def alice_def)
  have h3: "\<not> some_upload_fails ?e (Some ''avatar.png'') None None"
    by (simp add: some_upload_fails_def example_env_def upload_ok_def)
  have rows: "restaurantRepository (example_state []) = []"
    by (simp add: example_state_def)
  obtain r s' where
    w: "requestRestaurantWithFiles ?e example_dto example_address (Some ''avatar.png'') None None
          (example_state []) = (Inr r, s')"
    using creation_status [OF h1 h2, of ?e example_address "Some ''avatar.png''" None None] h3
    by (cases "requestRestaurantWithFiles ?e example_dto example_address (Some ''avatar.png'')
                 None None (example_state [])")
       (auto simp: succeeds_def split: sum.splits)
  from creation_status [OF h1 h2, of ?e example_address "Some ''avatar.png''" None None] w
  show ?thesis
    using h1 h2 h3 rows by auto
qed

section \<open>Pagination\<close>

















section \<open>User creation\<close>











section \<open>Creation with attachments: upload and geocoding failures\<close>

lemma set_coordinates_geocode_fails:
  assumes "\<not> (truthy (dto_latitude dto) \<and> truthy (dto_longitude dto))"
    and "geocode e ad = Inr None \<or> (\<exists>err. geocode e ad = Inl err)"
  shows "fst (set_coordinates e dto ad a s) = a"
  using assms by (auto simp: set_coordinates_def try_geocode_def)

lemma requestRestaurantWithFiles_upload_rejected:
  assumes "truthy (dto_ownerId dto)"
    and "userRepository_findOne (the (dto_ownerId dto)) s = Some u"
    and "upload_files e av bg ce (Some '''') (Some '''') (Some '''') = Inl err"
  shows "requestRestaurantWithFiles e dto ad av bg ce s =
           (Inl (BadRequestException (''File upload failed: '' @ message err)),
            logger_error ''Error uploading files:''
              (snd (addressRepository_save e
                      (fst (set_coordinates e dto ad (addressRepository_create ad) s))
                      (snd (set_coordinates e dto ad (addressRepository_create ad) s)))))"
  using assms
  by (simp add: requestRestaurantWithFiles_def Let_def split_beta rethrow_BadRequest_def)

lemma requestRestaurantWithFiles_uploaded:
  assumes "truthy (dto_ownerId dto)"
    and "userRepository_findOne (the (dto_ownerId dto)) s = Some u"
    and "upload_files e av bg ce (Some '''') (Some '''') (Some '''') = Inr (a, b, c)"
  shows "\<exists>r. requestRestaurantWithFiles e dto ad av bg ce s =
           (Inr r,
            (snd (addressRepository_save e
                    (fst (set_coordinates e dto ad (addressRepository_create ad) s))
                    (snd (set_coordinates e dto ad (addressRepository_create ad) s))))
              \<lparr>restaurantRepository := restaurantRepository s @ [r]\<rparr>)
         \<and> address r = Some (fst (addressRepository_save e
                    (fst (set_coordinates e dto ad (addressRepository_create ad) s))
                    (snd (set_coordinates e dto ad (addressRepository_create ad) s))))"
  using assms
  by (simp add: requestRestaurantWithFiles_def Let_def split_beta restaurantRepository_save_new
        addressRepository_save_restaurants set_coordinates_repositories)

lemma requestRestaurantWithFiles_no_owner:
  assumes "\<not> (truthy (dto_ownerId dto) \<and> userRepository_findOne (the (dto_ownerId dto)) s \<noteq> None)"
  shows "\<exists>m. requestRestaurantWithFiles e dto ad av bg ce s = (Inl (BadRequestException m), s)"
  using assms
  by (auto simp: requestRestaurantWithFiles_def rethrow_BadRequest_def)

lemma saved_new_address:
  "addressRepository_save e (fst (set_coordinates e dto ad (addressRepository_create ad) s))
       (snd (set_coordinates e dto ad (addressRepository_create ad) s)) =
     ((fst (set_coordinates e dto ad (addressRepository_create ad) s))
        \<lparr>address_id := Some (generated_address_id e)\<rparr>,
      (snd (set_coordinates e dto ad (addressRepository_create ad) s))
        \<lparr>addressRepository := addressRepository s
           @ [(fst (set_coordinates e dto ad (addressRepository_create ad) s))
                \<lparr>address_id := Some (generated_address_id e)\<rparr>]\<rparr>)"
proof -
  have "address_id (fst (set_coordinates e dto ad (addressRepository_create ad) s)) = None"
    by (simp add: set_coordinates_repositories addressRepository_create_def)
  then show ?thesis
    by (simp add: addressRepository_save_new set_coordinates_repositories)
qed

text \<open>
  C6.  When the storage service rejects the upload of a provided avatar, background or
  certificate file, \<open>requestRestaurantWithFiles\<close> throws and the restaurant table is
  what it was: no restaurant is persisted.  With a valid owner the error is the
  \<open>BadRequestException\<close> "File upload failed: ...".
\<close>

theorem upload_failure_aborts_creation:
  assumes "some_upload_fails e av bg ce"
  shows "\<not> succeeds (requestRestaurantWithFiles e dto ad av bg ce s)
       \<and> restaurantRepository (snd (requestRestaurantWithFiles e dto ad av bg ce s))
           = restaurantRepository s
       \<and> (truthy (dto_ownerId dto) \<and> userRepository_findOne (the (dto_ownerId dto)) s \<noteq> None \<longrightarrow>
            (\<exists>m. fst (requestRestaurantWithFiles e dto ad av bg ce s)
                   = Inl (BadRequestException (''File upload failed: '' @ m))))"
proof -
  obtain err where up: "upload_files e av bg ce (Some '''') (Some '''') (Some '''') = Inl err"
    using assms upload_files_rejected_iff by blast
  show ?thesis
  proof (cases "truthy (dto_ownerId dto) \<and> userRepository_findOne (the (dto_ownerId dto)) s \<noteq> None")
    case True
    then obtain u where "truthy (dto_ownerId dto)"
      "userRepository_findOne (the (dto_ownerId dto)) s = Some u"
      by auto
    from requestRestaurantWithFiles_upload_rejected [OF this up, of ad]
    show ?thesis
      by (simp add: succeeds_def logger_error_def addressRepository_save_restaurants
            set_coordinates_repositories)
  next
    case False
    from requestRestaurantWithFiles_no_owner [OF this, of e ad av bg ce]
    show ?thesis
      using False by (auto simp: succeeds_def)
  qed
qed

text \<open>The theorem with an avatar file whose upload the storage service rejects.\<close>

theorem upload_failure_aborts_creation_witness:
  "some_upload_fails (example_env upload_rejects delete_ok geocode_rejects)
      (Some ''avatar.png'') None None
   \<and> truthy (dto_ownerId example_dto)
   \<and> userRepository_findOne (the (dto_ownerId example_dto)) (example_state []) \<noteq> None
   \<and> \<not> succeeds (requestRestaurantWithFiles (example_env upload_rejects delete_ok geocode_rejects)
                   example_dto example_address (Some ''avatar.png'') None None (example_state []))
   \<and> (\<exists>m. fst (requestRestaurantWithFiles (example_env upload_rejects delete_ok geocode_rejects)
                   example_dto example_address (Some ''avatar.png'') None None (example_state []))
            = Inl (BadRequestException (''File upload failed: '' @ m)))
   \<and> restaurantRepository
        (snd (requestRestaurantWithFiles (example_env upload_rejects delete_ok geocode_rejects)
                example_dto example_address (Some ''avatar.png'') None None (example_state [])))
      = []"
proof -
  let ?e = "example_env upload_rejects delete_ok geocode_rejects"
  have h: "some_upload_fails ?e (Some ''avatar.png'') None None"
    by (simp add: some_upload_fails_def example_env_def upload_rejects_def)
  have o: "truthy (dto_ownerId example_dto)"
    "userRepository_findOne (the (dto_ownerId example_dto)) (example_state []) \<noteq> None"
    by (simp_all add: example_dto_def userRepository_findOne_def example_state_def alice_def)
  have rows: "restaurantRepository (example_state []) = []"
    by (simp add: example_state_def)
  from upload_failure_aborts_creation [OF h, of example_dto example_address "example_state []"]
  show ?thesis
    using h o rows by simp
qed

text \<open>
  C10.  When the owner is valid and an upload is rejected, the call throws the
  \<open>BadRequestException\<close> of the upload, yet the address table has grown by the address
  saved before the uploads, under its generated id; the restaurant table is unchanged.
\<close>

theorem upload_failure_keeps_address:
  assumes "truthy (dto_ownerId dto)"
    and "userRepository_findOne (the (dto_ownerId dto)) s = Some u"
    and "some_upload_fails e av bg ce"
  shows "\<exists>a m s'. requestRestaurantWithFiles e dto ad av bg ce s
                    = (Inl (BadRequestException (''File upload failed: '' @ m)), s')
           \<and> addressRepository s' = addressRepository s @ [a]
           \<and> address_id a = Some (generated_address_id e)
           \<and> street a = Some (ad_street ad) \<and> ward a = Some (ad_ward ad)
           \<and> district a = Some (ad_district ad) \<and> city a = Some (ad_city ad)
           \<and> restaurantRepository s' = restaurantRepository s"
proof -
  obtain err where up: "upload_files e av bg ce (Some '''') (Some '''') (Some '''') = Inl err"
    using assms(3) upload_files_rejected_iff by blast
  have fields:
    "street (fst (set_coordinates e dto ad (addressRepository_create ad) s)) = Some (ad_street ad)"
    "ward (fst (set_coordinates e dto ad (addressRepository_create ad) s)) = Some (ad_ward ad)"
    "district (fst (set_coordinates e dto ad (addressRepository_create ad) s)) = Some (ad_district ad)"
    "city (fst (set_coordinates e dto ad (addressRepository_create ad) s)) = Some (ad_city ad)"
    by (simp_all add: set_coordinates_def try_geocode_def addressRepository_create_def
          split: sum.splits option.splits)
  from requestRestaurantWithFiles_upload_rejected [OF assms(1,2) up, of ad]
  show ?thesis
    using fields
    by (simp add: saved_new_address logger_error_def set_coordinates_repositories)
qed

text \<open>The theorem with a rejected avatar upload: the address is in the table afterwards.\<close>

theorem upload_failure_keeps_address_witness:
  "truthy (dto_ownerId example_dto)
   \<and> userRepository_findOne (the (dto_ownerId example_dto)) (example_state []) = Some alice
   \<and> some_upload_fails (example_env upload_rejects delete_ok geocode_rejects)
        (Some ''avatar.png'') None None
   \<and> map address_id (addressRepository
        (snd (requestRestaurantWithFiles (example_env upload_rejects delete_ok geocode_rejects)
                example_dto example_address (Some ''avatar.png'') None None (example_state []))))
      = [Some ''a1'']
   \<and> restaurantRepository
        (snd (requestRestaurantWithFiles (example_env upload_rejects delete_ok geocode_rejects)
                example_dto example_address (Some ''avatar.png'') None None (example_state [])))
      = []"
proof -
  let ?e = "example_env upload_rejects delete_ok geocode_rejects"
  have h1: "truthy (dto_ownerId example_dto)"
    by (simp add: example_dto_def)
  have h2: "userRepository_findOne (the (dto_ownerId example_dto)) (example_state []) = Some alice"
    by (simp add: example_dto_def userRepository_findOne_def example_state_def alice_def)
  have h3: "some_upload_fails ?e (Some ''avatar.png'') None None"
    by (simp add: some_upload_fails_def example_env_def upload_rejects_def)
  have rows: "restaurantRepository (example_state []) = []"
    "addressRepository (example_state []) = []" "generated_address_id ?e = ''a1''"
    by (simp_all add: example_state_def example_env_def)
  from upload_failure_keeps_address [OF h1 h2 h3, of example_address]
  show ?thesis
    using h1 h2 h3 rows by auto
qed

text \<open>
  C7.  When the caller gives no pair of coordinates and geocoding rejects or returns no
  result, \<open>requestRestaurantWithFiles\<close> succeeds exactly when the owner is valid and no
  upload is rejected: the geocoding failure is not among the causes of failure.  The
  restaurant it returns has been appended to its table, and its address, appended to the
  address table, has neither latitude nor longitude.
\<close>

theorem geocoding_failure_not_fatal:
  assumes "\<not> (truthy (dto_latitude dto) \<and> truthy (dto_longitude dto))"
    and "geocode e ad = Inr None \<or> (\<exists>err. geocode e ad = Inl err)"
  shows "(succeeds (requestRestaurantWithFiles e dto ad av bg ce s) \<longleftrightarrow>
            truthy (dto_ownerId dto)
          \<and> userRepository_findOne (the (dto_ownerId dto)) s \<noteq> None
          \<and> \<not> some_upload_fails e av bg ce)
       \<and> (\<forall>r s'. requestRestaurantWithFiles e dto ad av bg ce s = (Inr r, s') \<longrightarrow>
            (\<exists>a. address r = Some a
                \<and> address_latitude a = None \<and> address_longitude a = None
                \<and> addressRepository s' = addressRepository s @ [a]
                \<and> restaurantRepository s' = restaurantRepository s @ [r]))"
proof (cases "truthy (dto_ownerId dto) \<and> userRepository_findOne (the (dto_ownerId dto)) s \<noteq> None")
  case False
  from requestRestaurantWithFiles_no_owner [OF this, of e ad av bg ce]
  show ?thesis
    using False by (auto simp: succeeds_def)
next
  case True
  then obtain u where o: "truthy (dto_ownerId dto)"
    "userRepository_findOne (the (dto_ownerId dto)) s = Some u"
    by auto
  have co: "fst (set_coordinates e dto ad (addressRepository_create ad) s)
              = addressRepository_create ad"
    using assms by (rule set_coordinates_geocode_fails)
  show ?thesis
  proof (cases "upload_files e av bg ce (Some '''') (Some '''') (Some '''')")
    case (Inl err)
    then have "some_upload_fails e av bg ce"
      using upload_files_rejected_iff by blast
    then show ?thesis
      using requestRestaurantWithFiles_upload_rejected [OF o Inl, of ad]
      by (simp add: succeeds_def)
  next
    case (Inr urls)
    obtain a b c where urls: "urls = (a, b, c)"
      by (cases urls) auto
    have "\<not> some_upload_fails e av bg ce"
      using Inr upload_files_rejected_iff [of e av bg ce "Some ''''" "Some ''''" "Some ''''"]
      by auto
    moreover
    let ?a = "(addressRepository_create ad)\<lparr>address_id := Some (generated_address_id e)\<rparr>"
    note sv = saved_new_address [of e dto ad s, unfolded co]
    obtain r where
      call: "requestRestaurantWithFiles e dto ad av bg ce s =
               (Inr r,
                (snd (set_coordinates e dto ad (addressRepository_create ad) s))
                  \<lparr>addressRepository := addressRepository s @ [?a],
                   restaurantRepository := restaurantRepository s @ [r]\<rparr>)"
      and ar: "address r = Some ?a"
      using requestRestaurantWithFiles_uploaded [OF o Inr [unfolded urls], of ad]
      unfolding co sv by auto
    have "address_latitude ?a = None" "address_longitude ?a = None"
      by (simp_all add: addressRepository_create_def)
    ultimately show ?thesis
      using True call ar by (simp add: succeeds_def)
  qed
qed

text \<open>
  The theorem with a geocoder that rejects: the restaurant is created, and the address
  saved with it has no coordinates.
\<close>

theorem geocoding_failure_not_fatal_witness:
  "\<not> (truthy (dto_latitude example_dto) \<and> truthy (dto_longitude example_dto))
   \<and> (\<exists>err. geocode (example_env upload_ok delete_ok geocode_rejects) example_address = Inl err)
   \<and> succeeds (requestRestaurantWithFiles (example_env upload_ok delete_ok geocode_rejects)
                 example_dto example_address (Some ''avatar.png'') None None (example_state []))
   \<and> map address_latitude (addressRepository
        (snd (requestRestaurantWithFiles (example_env upload_ok delete_ok geocode_rejects)
                example_dto example_address (Some ''avatar.png'') None None (example_state []))))
      = [None]
   \<and> map address_longitude (addressRepository
        (snd (requestRestaurantWithFiles (example_env upload_ok delete_ok geocode_rejects)
                example_dto example_address (Some ''avatar.png'') None None (example_state []))))
      = [None]
   \<and> length (restaurantRepository
        (snd (requestRestaurantWithFiles (example_env upload_ok delete_ok geocode_rejects)
                example_dto example_address (Some ''avatar.png'') None None (example_state []))))
      = 1"
proof -
  let ?e = "example_env upload_ok delete_ok geocode_rejects"
  let ?call = "requestRestaurantWithFiles ?e example_dto example_address (Some ''avatar.png'')
                 None None (example_state [])"
  have h1: "\<not> (truthy (dto_latitude example_dto) \<and> truthy (dto_longitude example_dto))"
    by (simp add: example_dto_def)
  have h2: "\<exists>err. geocode ?e example_address = Inl err"
    by (simp add: example_env_def geocode_rejects_def)
  then have h2': "geocode ?e example_address = Inr None \<or> (\<exists>err. geocode ?e example_address = Inl err)"
    by (rule disjI2)
  have o: "truthy (dto_ownerId example_dto)"
    "userRepository_findOne (the (dto_ownerId example_dto)) (example_state []) \<noteq> None"
    "\<not> some_upload_fails ?e (Some ''avatar.png'') None None"
    by (simp_all add: example_dto_def userRepository_findOne_def example_state_def alice_def
          some_upload_fails_def example_env_def upload_ok_def)
  have rows: "restaurantRepository (example_state []) = []"
    "addressRepository (example_state []) = []"
    by (simp_all add: example_state_def)
  note t = geocoding_failure_not_fatal [OF h1 h2', of "Some ''avatar.png''" None None "example_state []"]
  have ok: "succeeds ?call"
    using t o by simp
  then obtain r s' where call: "?call = (Inr r, s')"
    by (cases ?call) (auto simp: succeeds_def split: sum.splits)
  show ?thesis
    using t h1 h2 ok call rows by auto
qed

section \<open>Self-service update\<close>

text \<open>
  C9.  For a stored user, \<open>updateMe\<close> returns and persists under the same id a user
  whose role is the role stored before the call, whatever the DTO carries, its \<open>role\<close>
  field included; the rows of other users are not touched.
\<close>

theorem updateMe_keeps_role:
  assumes "find (\<lambda>x. user_id x = uid) (usersRepository s) = Some u"
  shows "\<exists>u' s'. updateMe e uid dto s = (Inr u', s')
           \<and> user_role u' = user_role u
           \<and> user_id u' = uid
           \<and> find (\<lambda>x. user_id x = uid) (usersRepository s') = Some u'
           \<and> usersRepository s'
               = map (\<lambda>x. if user_id x = uid then u' else x) (usersRepository s)"
proof -
  let ?u' = "assign_user u (hash_password_if_truthy e (without_role dto))"
  have uid: "user_id u = uid"
    using find_Some_holds [OF assms] by simp
  have id': "user_id ?u' = uid" and role': "user_role ?u' = user_role u"
    using uid by (simp_all add: assign_user_def)
  have "update_defined u ?u' = ?u'"
    by (simp add: update_defined_def assign_user_def split: option.splits)
  then have "updateMe e uid dto s =
          (Inr ?u', s\<lparr>usersRepository := save_row user_id ?u' (usersRepository s)\<rparr>)"
    using assms id' by (simp add: updateMe_def getMe_def usersRepository_save_def Let_def)
  moreover have "find (\<lambda>x. user_id x = uid) (save_row user_id ?u' (usersRepository s)) = Some ?u'"
    using assms id' by (rule find_save_row)
  moreover have "save_row user_id ?u' (usersRepository s)
                   = map (\<lambda>x. if user_id x = uid then ?u' else x) (usersRepository s)"
    using assms id' by (rule save_row_existing)
  ultimately show ?thesis
    using id' role' by simp
qed

text \<open>
  The theorem for \<open>alice\<close> sending a new name, a new password and the role id of an
  administrator: name and password change, the role stays USER.
\<close>

theorem updateMe_keeps_role_witness:
  "find (\<lambda>x. user_id x = ''u1'') (usersRepository (example_state [])) = Some alice
   \<and> update_role example_update_user = Some ''role-admin''
   \<and> map user_role (usersRepository
        (snd (updateMe (example_env upload_ok delete_ok geocode_rejects) ''u1''
                example_update_user (example_state []))))
      = [Some role_user]
   \<and> user_role alice = Some role_user"
proof -
  let ?e = "example_env upload_ok delete_ok geocode_rejects"
  have h: "find (\<lambda>x. user_id x = ''u1'') (usersRepository (example_state [])) = Some alice"
    by (simp add: example_state_def alice_def)
  have rows: "usersRepository (example_state []) = [alice]" "user_id alice = ''u1''"
    "user_role alice = Some role_user" "update_role example_update_user = Some ''role-admin''"
    by (simp_all add: example_state_def alice_def example_update_user_def)
  from updateMe_keeps_role [OF h, of ?e example_update_user]
  show ?thesis
    using h rows by auto
qed

section \<open>Clean-up after an update with attachments\<close>

text \<open>
  \<open>updateWithAddressAndFiles\<close> guards each deletion: what it returns and what it
  persists do not depend on the outcome of \<open>deleteFile\<close>, and a rejection is logged as a
  warning.
\<close>

lemma cleanup_old_images_catch_repositories:
  "restaurantRepository (cleanup_old_images_catch e av bg ce a b c s) = restaurantRepository s"
  "addressRepository (cleanup_old_images_catch e av bg ce a b c s) = addressRepository s"
  "usersRepository (cleanup_old_images_catch e av bg ce a b c s) = usersRepository s"
  by (simp_all add: cleanup_old_images_catch_def delete_if_replaced_catch_def logger_warn_def
        split: sum.splits)

lemma updateWithAddressAndFiles_cleanup_best_effort:
  "fst (updateWithAddressAndFiles (e\<lparr>deleteFile := d\<rparr>) rid dto ad av bg ce s)
     = fst (updateWithAddressAndFiles e rid dto ad av bg ce s)
   \<and> restaurantRepository (snd (updateWithAddressAndFiles (e\<lparr>deleteFile := d\<rparr>) rid dto ad av bg ce s))
     = restaurantRepository (snd (updateWithAddressAndFiles e rid dto ad av bg ce s))"
proof -
  have ui: "upload_if_provided (e\<lparr>deleteFile := d\<rparr>) = upload_if_provided e"
    by (intro ext) (simp add: upload_if_provided_def split: option.splits)
  have u: "upload_files (e\<lparr>deleteFile := d\<rparr>) = upload_files e"
    by (intro ext) (simp only: upload_files_def ui)
  have g: "try_geocode (e\<lparr>deleteFile := d\<rparr>) = try_geocode e"
    by (intro ext) (simp add: try_geocode_def split: sum.splits option.splits)
  have a: "addressRepository_save (e\<lparr>deleteFile := d\<rparr>) = addressRepository_save e"
    by (intro ext) (simp add: addressRepository_save_def split: option.splits)
  have r: "restaurantRepository_save (e\<lparr>deleteFile := d\<rparr>) = restaurantRepository_save e"
    by (intro ext) (simp add: restaurantRepository_save_def split: option.splits)
  show ?thesis
    unfolding updateWithAddressAndFiles_def u g a r
    by (simp add: Let_def split_beta cleanup_old_images_catch_repositories
          split: prod.splits sum.splits)
qed

lemma updateWithAddressAndFiles_logs_cleanup_failure:
  "updateWithAddressAndFiles (example_env upload_ok delete_rejects geocode_rejects) ''r1''
     example_update None (Some ''new.png'') None None (example_state [joes APPROVED])
   = (Inr ((joes APPROVED)\<lparr>avatar := Some ''https://storage/restaurant-avatars/new.png''\<rparr>),
      (example_state [joes APPROVED])
        \<lparr>restaurantRepository :=
           [(joes APPROVED)\<lparr>avatar := Some ''https://storage/restaurant-avatars/new.png''\<rparr>],
         logger := [Warn ''Failed to delete old avatar: object not found'']\<rparr>)"
  by (simp add: updateWithAddressAndFiles_def findOne_def example_state_def joes_def
        reassign_owner_def example_update_def upload_files_def upload_if_provided_def
        example_env_def upload_ok_def assign_restaurant_def restaurantRepository_save_def
        save_row_def cleanup_old_images_catch_def delete_if_replaced_catch_def
        delete_rejects_def logger_warn_def Let_def)

text \<open>
  \<open>updateWithFiles\<close> does not: once the uploads have resolved and the restaurant is
  saved, a rejected deletion becomes the error of the whole call.
\<close>

lemma updateWithFiles_cleanup_rejected:
  assumes "find (\<lambda>x. restaurant_id x = Some rid) (restaurantRepository s) = Some r"
    and "\<not> truthy (upd_ownerId dto)"
    and "upload_files e av bg ce (avatar r) (backgroundImage r) (certificateImage r)
           = Inr (a, b, c)"
    and "cleanup_old_images e av bg ce (avatar r) (backgroundImage r) (certificateImage r)
           = Inl err"
  shows "updateWithFiles e rid dto av bg ce s =
           (Inl (BadRequestException (''Failed to update restaurant: '' @ message err)),
            s\<lparr>restaurantRepository :=
                save_row restaurant_id
                  (assign_restaurant
                     (r\<lparr>avatar := a, backgroundImage := b, certificateImage := c\<rparr>) dto)
                  (restaurantRepository s)\<rparr>)"
proof -
  have rid: "restaurant_id r = Some rid"
    using find_Some_holds [OF assms(1)] by simp
  have "restaurant_id (assign_restaurant
          (r\<lparr>avatar := a, backgroundImage := b, certificateImage := c\<rparr>) dto) = Some rid"
    using rid by (simp add: assign_restaurant_def)
  then show ?thesis
    using assms
    by (simp add: updateWithFiles_def findOne_def reassign_owner_def Let_def
          restaurantRepository_save_def)
qed

text \<open>
  C8 fails on \<open>updateWithFiles\<close>.  The avatar of the approved restaurant \<open>r1\<close> is
  replaced, the upload resolves and the restaurant is saved with the new URL; the storage
  service then rejects the deletion of the old avatar, and the call throws
  \<open>BadRequestException\<close> "Failed to update restaurant: ..." instead of returning the
  updated restaurant.
\<close>

theorem updateWithFiles_cleanup_failure_propagates:
  "updateWithFiles (example_env upload_ok delete_rejects geocode_rejects) ''r1''
     example_update (Some ''new.png'') None None (example_state [joes APPROVED])
   = (Inl (BadRequestException ''Failed to update restaurant: object not found''),
      (example_state [joes APPROVED])
        \<lparr>restaurantRepository :=
           [(joes APPROVED)\<lparr>avatar := Some ''https://storage/restaurant-avatars/new.png''\<rparr>]\<rparr>)"
  by (simp add: updateWithFiles_def findOne_def example_state_def joes_def
        reassign_owner_def example_update_def upload_files_def upload_if_provided_def
        example_env_def upload_ok_def assign_restaurant_def restaurantRepository_save_def
        save_row_def cleanup_old_images_def delete_if_replaced_def
        delete_rejects_def Let_def)

end
